theory Spec2Isabelle
  imports Main "HOL-Library.Char_ord" "HOL-Library.List_Lexorder"
begin

section \<open>JavaScript values\<close>

text \<open>
  The values that flow through \<^verbatim>\<open>Editor.tsx\<close> and \<^verbatim>\<open>SubmitPdf.tsx\<close> are
  JSON trees as JavaScript sees them at run time: the \<^verbatim>\<open>content\<close> prop is typed
  \<^verbatim>\<open>JSONContent\<close> but \<^verbatim>\<open>page.tsx\<close> holds it as \<^verbatim>\<open>any\<close>, starting at \<^verbatim>\<open>null\<close>.
  An object is the list of its own enumerable properties in enumeration order (the order
  \<^verbatim>\<open>JSON.stringify\<close> walks); an array is a list. Numbers are restricted to integers,
  which is what the documents of this application carry (heading levels): \<open>JNum n\<close>
  stands for the JavaScript number \<open>n\<close> when \<open>n\<close> is a safe integer (of magnitude below
  \<open>2 ^ 53\<close>), and only there is \<open>showInt\<close> the text JavaScript prints; a larger
  \<open>n\<close> is no JavaScript number, and JavaScript prints numbers from \<open>10 ^ 21\<close> on in
  exponent form. Strings are byte strings in UTF-8.
\<close>

datatype jsval =
    JUndefined
  | JNull
  | JBool bool
  | JNum int
  | JStr string
  | JArr "jsval list"
  | JObj "(string \<times> jsval) list"

text \<open>A thrown value: an \<^verbatim>\<open>Error\<close> object with its message, or anything else.\<close>

datatype js_exn = JsError string | JsThrown jsval

text \<open>ToBoolean: what \<^verbatim>\<open>if (v)\<close>, \<^verbatim>\<open>v && w\<close> and \<^verbatim>\<open>v || w\<close> test.\<close>

fun truthy :: "jsval \<Rightarrow> bool" where
  "truthy JUndefined = False"
| "truthy JNull = False"
| "truthy (JBool b) = b"
| "truthy (JNum n) = (n \<noteq> 0)"
| "truthy (JStr s) = (s \<noteq> [])"
| "truthy (JArr xs) = True"
| "truthy (JObj kvs) = True"

text \<open>\<^verbatim>\<open>a && b\<close> yields \<^verbatim>\<open>a\<close> itself when \<^verbatim>\<open>a\<close> is falsy, \<^verbatim>\<open>b\<close> otherwise;
  \<^verbatim>\<open>a || b\<close> is the mirror image.\<close>

definition js_and :: "jsval \<Rightarrow> jsval \<Rightarrow> jsval" where
  "js_and a b = (if truthy a then b else a)"

definition js_or :: "jsval \<Rightarrow> jsval \<Rightarrow> jsval" where
  "js_or a b = (if truthy a then a else b)"

fun typeof :: "jsval \<Rightarrow> string" where
  "typeof JUndefined = ''undefined''"
| "typeof JNull = ''object''"
| "typeof (JBool b) = ''boolean''"
| "typeof (JNum n) = ''number''"
| "typeof (JStr s) = ''string''"
| "typeof (JArr xs) = ''object''"
| "typeof (JObj kvs) = ''object''"

fun isArray :: "jsval \<Rightarrow> bool" where
  "isArray (JArr xs) = True"
| "isArray v = False"

text \<open>
  Reading a named property \<^verbatim>\<open>v.k\<close> of a value that is neither \<^verbatim>\<open>null\<close> nor
  \<^verbatim>\<open>undefined\<close>. The keys read in this program (\<^verbatim>\<open>type\<close>, \<^verbatim>\<open>content\<close>,
  \<^verbatim>\<open>error\<close>) are on no prototype, so on arrays and primitives the read is
  \<^verbatim>\<open>undefined\<close>. Callers that can see \<^verbatim>\<open>null\<close> go through \<open>readProp\<close>.
\<close>

fun getProp :: "jsval \<Rightarrow> string \<Rightarrow> jsval" where
  "getProp (JObj kvs) k = (case map_of kvs k of Some v \<Rightarrow> v | None \<Rightarrow> JUndefined)"
| "getProp v k = JUndefined"

text \<open>The message of the TypeError raised by a property read on \<^verbatim>\<open>null\<close> or
  \<^verbatim>\<open>undefined\<close> (V8's wording).\<close>

definition cannotRead :: "string \<Rightarrow> string \<Rightarrow> string" where
  "cannotRead what k = ''Cannot read properties of '' @ what @ '' (reading '' @ [CHR 0x27] @ k @ [CHR 0x27] @ '')''"

fun readProp :: "jsval \<Rightarrow> string \<Rightarrow> js_exn + jsval" where
  "readProp JUndefined k = Inl (JsError (cannotRead ''undefined'' k))"
| "readProp JNull k = Inl (JsError (cannotRead ''null'' k))"
| "readProp v k = Inr (getProp v k)"

subsection \<open>Decimal text of an integer\<close>

definition digit :: "nat \<Rightarrow> char" where
  "digit d = ''0123456789abcdef'' ! d"

fun showNat :: "nat \<Rightarrow> string" where
  "showNat n = (if n < 10 then [digit n] else showNat (n div 10) @ [digit (n mod 10)])"

definition showInt :: "int \<Rightarrow> string" where
  "showInt i = (if i < 0 then CHR ''-'' # showNat (nat (- i)) else showNat (nat i))"

fun intercalate :: "string \<Rightarrow> string list \<Rightarrow> string" where
  "intercalate sep [] = []"
| "intercalate sep [x] = x"
| "intercalate sep (x # y # ys) = x @ sep @ intercalate sep (y # ys)"

subsection \<open>\<^verbatim>\<open>JSON.stringify\<close> and \<^verbatim>\<open>String(v)\<close>\<close>

text \<open>String escaping of \<^verbatim>\<open>JSON.stringify\<close>: the quote, the backslash, the five
  short escapes, and \<^verbatim>\<open>\u00XX\<close> for the other control characters.\<close>

definition escapeChar :: "char \<Rightarrow> string" where
  "escapeChar c =
     (if c = CHR 0x22 then [CHR 0x5C, CHR 0x22]
      else if c = CHR 0x5C then [CHR 0x5C, CHR 0x5C]
      else if c = CHR 0x08 then [CHR 0x5C, CHR ''b'']
      else if c = CHR 0x0C then [CHR 0x5C, CHR ''f'']
      else if c = CHR 0x0A then [CHR 0x5C, CHR ''n'']
      else if c = CHR 0x0D then [CHR 0x5C, CHR ''r'']
      else if c = CHR 0x09 then [CHR 0x5C, CHR ''t'']
      else if (of_char c :: nat) < 32
        then [CHR 0x5C, CHR ''u'', CHR ''0'', CHR ''0'',
              digit ((of_char c :: nat) div 16), digit ((of_char c :: nat) mod 16)]
      else [c])"

definition quote :: "string \<Rightarrow> string" where
  "quote s = CHR 0x22 # concat (map escapeChar s) @ [CHR 0x22]"

text \<open>
  \<^verbatim>\<open>JSON.stringify(v)\<close>: \<open>None\<close> is the result \<^verbatim>\<open>undefined\<close> (a value that has
  no JSON text). An \<^verbatim>\<open>undefined\<close> array element is written \<^verbatim>\<open>null\<close>; a property
  whose value is \<^verbatim>\<open>undefined\<close> is left out. Properties are written in the order of
  the object.
\<close>

definition elementText :: "string option \<Rightarrow> string" where
  "elementText t = (case t of None \<Rightarrow> ''null'' | Some s \<Rightarrow> s)"

definition memberText :: "string \<times> string option \<Rightarrow> string list" where
  "memberText kt = (case snd kt of None \<Rightarrow> [] | Some s \<Rightarrow> [quote (fst kt) @ '':'' @ s])"

primrec JSON_stringify :: "jsval \<Rightarrow> string option" where
  "JSON_stringify JUndefined = None"
| "JSON_stringify JNull = Some ''null''"
| "JSON_stringify (JBool b) = Some (if b then ''true'' else ''false'')"
| "JSON_stringify (JNum n) = Some (showInt n)"
| "JSON_stringify (JStr s) = Some (quote s)"
| "JSON_stringify (JArr xs) =
     Some (''['' @ intercalate '','' (map elementText (map JSON_stringify xs)) @ '']'')"
| "JSON_stringify (JObj kvs) =
     Some (''{'' @ intercalate '','' (concat (map memberText (map (map_prod id JSON_stringify) kvs))) @ ''}'')"

text \<open>\<^verbatim>\<open>String(v)\<close>, which \<^verbatim>\<open>new Error(v)\<close> applies to its argument: an array joins
  its elements with commas (\<^verbatim>\<open>null\<close> and \<^verbatim>\<open>undefined\<close> elements are empty), a plain
  object is \<^verbatim>\<open>[object Object]\<close>.\<close>

definition joinElement :: "jsval \<times> string \<Rightarrow> string" where
  "joinElement vt = (case fst vt of JUndefined \<Rightarrow> [] | JNull \<Rightarrow> [] | _ \<Rightarrow> snd vt)"

primrec toString :: "jsval \<Rightarrow> string" where
  "toString JUndefined = ''undefined''"
| "toString JNull = ''null''"
| "toString (JBool b) = (if b then ''true'' else ''false'')"
| "toString (JNum n) = showInt n"
| "toString (JStr s) = s"
| "toString (JArr xs) = intercalate '','' (map joinElement (zip xs (map toString xs)))"
| "toString (JObj kvs) = ''[object Object]''"

section \<open>The document model (\<^verbatim>\<open>Editor.tsx\<close>)\<close>

text \<open>\<^verbatim>\<open>defaultContent\<close>: one paragraph holding one empty text run.\<close>

definition defaultContent :: jsval where
  "defaultContent =
     JObj [(''type'', JStr ''doc''),
           (''content'', JArr [
              JObj [(''type'', JStr ''paragraph''),
                    (''content'', JArr [JObj [(''type'', JStr ''text''), (''text'', JStr '''')]])]])]"

text \<open>
  \<^verbatim>\<open>isValidContent\<close> is the chain
  \<^verbatim>\<open>content && typeof content === "object" && content.type === "doc" && Array.isArray(content.content)\<close>.
  Its value is a JavaScript value: the chain yields \<^verbatim>\<open>content\<close> itself when that is
  falsy. The property reads are only reached for a truthy value of type \<^verbatim>\<open>object\<close>,
  so they cannot raise.
\<close>

definition isValidContent :: "jsval \<Rightarrow> jsval" where
  "isValidContent content =
     js_and content
       (js_and (JBool (typeof content = ''object''))
          (js_and (JBool (getProp content ''type'' = JStr ''doc''))
             (JBool (isArray (getProp content ''content'')))))"

text \<open>The editor is created with
  \<^verbatim>\<open>content: isValidContent(content) ? content : defaultContent\<close>.\<close>

definition initialContent :: "jsval \<Rightarrow> jsval" where
  "initialContent content = (if truthy (isValidContent content) then content else defaultContent)"

subsection \<open>Structural equality, as the specification words it\<close>

text \<open>
  This relation is the specification's, not the program's (the program compares JSON
  texts, see \<open>syncTry\<close>). The glossary defines structural equality as deep value
  equality of two document trees ignoring reference identity: two objects are equal when
  they have the same keys with equal values, whatever the order the keys were written
  in, and two arrays are equal when they are equal position by position. \<open>canon\<close>
  sorts every object by key, so that two trees are deeply equal exactly when their
  canonical forms coincide.
\<close>

primrec canon :: "jsval \<Rightarrow> jsval" where
  "canon JUndefined = JUndefined"
| "canon JNull = JNull"
| "canon (JBool b) = JBool b"
| "canon (JNum n) = JNum n"
| "canon (JStr s) = JStr s"
| "canon (JArr xs) = JArr (map canon xs)"
| "canon (JObj kvs) = JObj (sort_key fst (map (map_prod id canon) kvs))"

definition deepStructuralEqual :: "jsval \<Rightarrow> jsval \<Rightarrow> bool" where
  "deepStructuralEqual a b = (canon a = canon b)"

section \<open>The editing surface and its two callbacks (\<^verbatim>\<open>Editor.tsx\<close>)\<close>

text \<open>
  The editor object comes from the tiptap library; the component uses two of its
  operations, which are parameters here. \<^verbatim>\<open>editor.getJSON()\<close> reads the state and
  may throw (the component wraps it in \<^verbatim>\<open>try\<close>). \<^verbatim>\<open>editor.commands.setContent(c, emitUpdate)\<close>
  yields the next state and may throw as well.
\<close>

record 'e editor_api =
  getJSON :: "'e \<Rightarrow> js_exn + jsval"
  setContent :: "jsval \<Rightarrow> bool \<Rightarrow> 'e \<Rightarrow> js_exn option \<times> 'e"

datatype log_level = LogWarn | LogError

type_synonym log_entry = "log_level \<times> string"

record 'e effect_result =
  editor_after :: "'e option"
  calls :: "(jsval \<times> bool) list"
  console :: "log_entry list"
  escaped :: "js_exn option"

text \<open>
  The \<^verbatim>\<open>try\<close> block of the synchronising effect (lines 341 to 352): the exception
  it ends with if any, the editor state, the \<^verbatim>\<open>setContent\<close> calls made and the
  console output.
\<close>

definition syncTry ::
  "'e editor_api \<Rightarrow> 'e \<Rightarrow> jsval \<Rightarrow> js_exn option \<times> 'e \<times> (jsval \<times> bool) list \<times> log_entry list" where
  "syncTry api e content =
     (if truthy (isValidContent content) then
        (case getJSON api e of
           Inl x \<Rightarrow> (Some x, e, [], [])
         | Inr currentContent \<Rightarrow>
             if JSON_stringify content \<noteq> JSON_stringify currentContent then
               (case setContent api content False e of
                  (x, e') \<Rightarrow> (x, e', [(content, False)], []))
             else (None, e, [], []))
      else
        (case setContent api defaultContent False e of
           (x, e') \<Rightarrow> (x, e', [(defaultContent, False)],
                       [(LogWarn, ''Invalid content provided to Editor'')])))"

text \<open>
  The effect itself (lines 338 to 358). It does nothing unless both the editor and the
  content are truthy. An exception of the \<^verbatim>\<open>try\<close> block is logged and answered with
  \<^verbatim>\<open>setContent(defaultContent, false)\<close>; an exception of that last call leaves the
  effect.
\<close>

definition syncEffect :: "'e editor_api \<Rightarrow> 'e option \<Rightarrow> jsval \<Rightarrow> 'e effect_result" where
  "syncEffect api editor content =
     (case editor of
        None \<Rightarrow> \<lparr>editor_after = None, calls = [], console = [], escaped = None\<rparr>
      | Some e \<Rightarrow>
          if \<not> truthy content then
            \<lparr>editor_after = Some e, calls = [], console = [], escaped = None\<rparr>
          else
            (case syncTry api e content of
               (None, e', cs, lg) \<Rightarrow>
                 \<lparr>editor_after = Some e', calls = cs, console = lg, escaped = None\<rparr>
             | (Some x, e', cs, lg) \<Rightarrow>
                 (case setContent api defaultContent False e' of
                    (y, e'') \<Rightarrow>
                      \<lparr>editor_after = Some e'',
                       calls = cs @ [(defaultContent, False)],
                       console = lg @ [(LogError, ''Failed to update editor content:'')],
                       escaped = y\<rparr>)))"

text \<open>
  \<^verbatim>\<open>onUpdate\<close> (lines 325 to 334): the documents handed to \<^verbatim>\<open>onChange\<close>, the
  console output, and the exception that leaves the handler. \<^verbatim>\<open>onChange\<close> is an
  optional prop and may itself throw; it is called inside the \<^verbatim>\<open>try\<close>.
\<close>

record update_result =
  delivered :: "jsval list"
  update_console :: "log_entry list"
  update_escaped :: "js_exn option"

definition onUpdate ::
  "'e editor_api \<Rightarrow> 'e \<Rightarrow> (jsval \<Rightarrow> js_exn option) option \<Rightarrow> update_result" where
  "onUpdate api e onChange =
     (case getJSON api e of
        Inl x \<Rightarrow>
          \<lparr>delivered = [], update_console = [(LogError, ''Failed to get editor content:'')],
           update_escaped = None\<rparr>
      | Inr jsonContent \<Rightarrow>
          if truthy (isValidContent jsonContent) then
            (case onChange of
               None \<Rightarrow> \<lparr>delivered = [], update_console = [], update_escaped = None\<rparr>
             | Some callback \<Rightarrow>
                 (case callback jsonContent of
                    None \<Rightarrow>
                      \<lparr>delivered = [jsonContent], update_console = [], update_escaped = None\<rparr>
                  | Some x \<Rightarrow>
                      \<lparr>delivered = [jsonContent],
                       update_console = [(LogError, ''Failed to get editor content:'')],
                       update_escaped = None\<rparr>))
          else \<lparr>delivered = [], update_console = [], update_escaped = None\<rparr>)"

text \<open>
  An editing surface that keeps the document it was given, word for word, and never
  throws. It instantiates the library's operations in the concrete checks below.
\<close>

definition plainEditor :: "jsval editor_api" where
  "plainEditor = \<lparr>getJSON = (\<lambda>d. Inr d), setContent = (\<lambda>c emitUpdate d. (None, c))\<rparr>"

section \<open>Node identifiers (\<^verbatim>\<open>addNodeId\<close>)\<close>

text \<open>
  \<^verbatim>\<open>addNodeId\<close> (lines 130 to 143) builds the declaration of an \<^verbatim>\<open>id\<close>
  attribute; the math node carries a verbatim copy of it (lines 291 to 302). The
  component hands the declaration to the paragraph, bullet list, list item, heading, code
  block and math extensions inside the argument of \<^verbatim>\<open>.configure(...)\<close>, that is as
  an option of the extension and not as part of its definition. The function below is
  the declaration's \<^verbatim>\<open>renderHTML\<close> as written:
  \<^verbatim>\<open>const id = attributes.id || uuidv4()\<close> followed by the two markup attributes.
  It returns markup attributes and assigns nothing to \<^verbatim>\<open>attributes\<close>.

  \<^verbatim>\<open>uuidv4\<close> is the generator of the uuid library: the sequence of identifiers it
  yields is a parameter, and the generator's state is the number of identifiers drawn.
\<close>

record node_attributes =
  node_id :: "string option"

definition uuidv4 :: "(nat \<Rightarrow> string) \<Rightarrow> nat \<Rightarrow> string \<times> nat" where
  "uuidv4 source drawn = (source drawn, Suc drawn)"

definition addNodeId_renderHTML ::
  "(nat \<Rightarrow> string) \<Rightarrow> node_attributes \<Rightarrow> nat \<Rightarrow> (string \<times> string) list \<times> nat" where
  "addNodeId_renderHTML source attributes drawn =
     (case (case node_id attributes of
              None \<Rightarrow> uuidv4 source drawn
            | Some s \<Rightarrow> if s \<noteq> [] then (s, drawn) else uuidv4 source drawn) of
        (i, drawn') \<Rightarrow>
          ([(''data-node-id'', i), (''data-node-tooltip'', ''Node ID: '' @ i)], drawn'))"

text \<open>\<^verbatim>\<open>parseHTML\<close> of the same declaration: \<^verbatim>\<open>element.getAttribute("data-node-id")\<close>.\<close>

definition addNodeId_parseHTML :: "(string \<times> string) list \<Rightarrow> string option" where
  "addNodeId_parseHTML element = map_of element ''data-node-id''"

section \<open>The upload workflow (\<^verbatim>\<open>SubmitPdf.tsx\<close>)\<close>

text \<open>
  The component's three state cells, a dropped file with its declared media type, the
  request it sends and what comes back. \<^verbatim>\<open>fetch\<close> either rejects (network failure,
  timeout, abort) or resolves to a response; \<^verbatim>\<open>response.json()\<close> either rejects (the
  body is not JSON) or yields the parsed body. Both are parameters, as is the optional
  \<^verbatim>\<open>onContentChange\<close> prop, which may throw.
\<close>

record upload_state =
  data :: jsval
  error :: string
  isLoading :: bool

record dropped_file =
  file_name :: string
  file_type :: string

record request =
  url :: string
  http_method :: string
  body_file :: dropped_file
  timeout_ms :: nat
  headers :: "(string \<times> string) list"

record response =
  ok :: bool
  json :: "js_exn + jsval"

datatype fetch_outcome = Rejected js_exn | Resolved response

record upload_env =
  fetch :: "request \<Rightarrow> fetch_outcome"
  onContentChange :: "(jsval \<Rightarrow> js_exn option) option"

record drop_result =
  final :: upload_state
  requests :: "request list"
  notified :: "jsval list"
  snapshots :: "upload_state list"

text \<open>The accessors exposed through the ref (lines 24 to 29).\<close>

definition getHtml :: "upload_state \<Rightarrow> jsval" where
  "getHtml s = data s"

definition clearHtml :: "upload_state \<Rightarrow> upload_state" where
  "clearHtml s = s\<lparr>data := JNull\<rparr>"

definition isConverting :: "upload_state \<Rightarrow> bool" where
  "isConverting s = isLoading s"

definition getError :: "upload_state \<Rightarrow> string option" where
  "getError s = (if error s \<noteq> [] then Some (error s) else None)"

definition convertRequest :: "dropped_file \<Rightarrow> request" where
  "convertRequest f =
     \<lparr>url = ''/api/py/convert'', http_method = ''POST'', body_file = f, timeout_ms = 300000,
      headers = [(''Connection'', ''keep-alive''), (''Keep-Alive'', ''timeout=300'')]\<rparr>"

text \<open>\<^verbatim>\<open>err instanceof Error ? err.message : 'An error occurred'\<close>\<close>

fun caughtMessage :: "js_exn \<Rightarrow> string" where
  "caughtMessage (JsError m) = m"
| "caughtMessage (JsThrown v) = ''An error occurred''"

text \<open>
  The \<^verbatim>\<open>try\<close> block of \<^verbatim>\<open>onDrop\<close> (lines 39 to 70), started in state \<open>s\<close>: the
  exception it ends with if any, the state, the requests sent, the values handed to
  \<^verbatim>\<open>onContentChange\<close>, and the state shown at each \<^verbatim>\<open>await\<close> where the handler
  was suspended. \<^verbatim>\<open>acceptedFiles[0]\<close> of an empty list is \<^verbatim>\<open>undefined\<close>, and
  reading its \<^verbatim>\<open>type\<close> raises.
\<close>

definition tryConvert ::
  "upload_env \<Rightarrow> upload_state \<Rightarrow> dropped_file list \<Rightarrow>
   js_exn option \<times> upload_state \<times> request list \<times> jsval list \<times> upload_state list" where
  "tryConvert env s acceptedFiles =
     (case acceptedFiles of
        [] \<Rightarrow> (Some (JsError (cannotRead ''undefined'' ''type'')), s, [], [], [])
      | f # rest \<Rightarrow>
          if file_type f = [] \<or> file_type f \<noteq> ''application/pdf'' then
            (Some (JsError ''Please upload a PDF file''), s, [], [], [])
          else
            (case fetch env (convertRequest f) of
               Rejected x \<Rightarrow> (Some x, s, [convertRequest f], [], [s])
             | Resolved r \<Rightarrow>
                 (case json r of
                    Inl x \<Rightarrow> (Some x, s, [convertRequest f], [], [s, s])
                  | Inr result \<Rightarrow>
                      if \<not> ok r then
                        (case readProp result ''error'' of
                           Inl x \<Rightarrow> (Some x, s, [convertRequest f], [], [s, s])
                         | Inr e \<Rightarrow>
                             (Some (JsError (toString (js_or e (JStr ''Failed to convert PDF'')))),
                              s, [convertRequest f], [], [s, s]))
                      else
                        (case onContentChange env of
                           None \<Rightarrow> (None, s\<lparr>data := result\<rparr>, [convertRequest f], [], [s, s])
                         | Some observer \<Rightarrow>
                             (observer result, s\<lparr>data := result\<rparr>, [convertRequest f],
                              [result], [s, s])))))"

text \<open>
  \<^verbatim>\<open>onDrop\<close> (lines 31 to 76): the three resets, the \<^verbatim>\<open>try\<close> block, the
  \<^verbatim>\<open>catch\<close> that stores the message, and the \<^verbatim>\<open>finally\<close> that clears the loading
  flag.
\<close>

definition onDrop :: "upload_env \<Rightarrow> upload_state \<Rightarrow> dropped_file list \<Rightarrow> drop_result" where
  "onDrop env s acceptedFiles =
     (case tryConvert env (s\<lparr>error := [], data := JNull, isLoading := True\<rparr>) acceptedFiles of
        (thrown, s', reqs, notes, shown) \<Rightarrow>
          \<lparr>final = (case thrown of
                      None \<Rightarrow> s'
                    | Some err \<Rightarrow> s'\<lparr>error := caughtMessage err\<rparr>)\<lparr>isLoading := False\<rparr>,
           requests = reqs, notified = notes, snapshots = shown\<rparr>)"

section \<open>Conditions on the library, and concrete inputs\<close>

text \<open>
  Two properties an editing library may have. \<open>neverThrows\<close>: neither operation
  raises. \<open>replacesWholeDocument\<close>: the document read back after \<^verbatim>\<open>setContent\<close>
  depends on the content passed and not on what the editor held before.
  \<open>serialized\<close> is the document an optional editor shows.
\<close>

definition neverThrows :: "'e editor_api \<Rightarrow> bool" where
  "neverThrows api =
     ((\<forall>e. \<exists>d. getJSON api e = Inr d) \<and> (\<forall>c h e. fst (setContent api c h e) = None))"

definition replacesWholeDocument :: "'e editor_api \<Rightarrow> bool" where
  "replacesWholeDocument api =
     (\<forall>c h e e'. getJSON api (snd (setContent api c h e))
                = getJSON api (snd (setContent api c h e')))"

definition serialized :: "'e editor_api \<Rightarrow> 'e option \<Rightarrow> (js_exn + jsval) option" where
  "serialized api editor = map_option (getJSON api) editor"

text \<open>The empty document \<^verbatim>\<open>{type:"doc",content:[]}\<close>, and the same document as a
  service that writes \<^verbatim>\<open>content\<close> first would send it.\<close>

definition emptyDoc :: jsval where
  "emptyDoc = JObj [(''type'', JStr ''doc''), (''content'', JArr [])]"

definition reorderedDoc :: jsval where
  "reorderedDoc = JObj [(''content'', JArr []), (''type'', JStr ''doc'')]"

text \<open>An editing surface whose serialisation raises, and an \<^verbatim>\<open>onChange\<close> that
  returns normally.\<close>

definition brokenEditor :: "jsval editor_api" where
  "brokenEditor =
     \<lparr>getJSON = (\<lambda>d. Inl (JsError ''Cannot serialize'')),
      setContent = (\<lambda>c emitUpdate d. (None, c))\<rparr>"

definition accepting :: "(jsval \<Rightarrow> js_exn option) option" where
  "accepting = Some (\<lambda>d. None)"

text \<open>Two files, a conversion service that answers with a given status and body, one
  that cannot be reached, and the state the component is in after a conversion that
  succeeded with the empty document.\<close>

definition textFile :: dropped_file where
  "textFile = \<lparr>file_name = ''notes.txt'', file_type = ''text/plain''\<rparr>"

text \<open>A file named \<^verbatim>\<open>scan.pdf\<close> for which the browser declares no media type: the
  dropzone, configured with \<^verbatim>\<open>accept: {'application/pdf': ['.pdf']}\<close>, lets it through
  on its extension.\<close>

definition untypedPdf :: dropped_file where
  "untypedPdf = \<lparr>file_name = ''scan.pdf'', file_type = []\<rparr>"

definition pdfFile :: dropped_file where
  "pdfFile = \<lparr>file_name = ''paper.pdf'', file_type = ''application/pdf''\<rparr>"

definition answering :: "bool \<Rightarrow> js_exn + jsval \<Rightarrow> upload_env" where
  "answering status body =
     \<lparr>fetch = (\<lambda>q. Resolved \<lparr>ok = status, json = body\<rparr>), onContentChange = None\<rparr>"

definition unreachable :: upload_env where
  "unreachable =
     \<lparr>fetch = (\<lambda>q. Rejected (JsError ''Failed to fetch'')), onContentChange = None\<rparr>"

definition afterSuccess :: upload_state where
  "afterSuccess = \<lparr>data = emptyDoc, error = [], isLoading = False\<rparr>"

section \<open>Validity of a document\<close>

lemma isValidContent_cases:
  "isValidContent v =
     (if \<not> truthy v then v
      else JBool (\<exists>kvs xs. v = JObj kvs \<and> map_of kvs ''type'' = Some (JStr ''doc'')
                    \<and> map_of kvs ''content'' = Some (JArr xs)))"
proof (cases v)
  case (JObj kvs)
  show ?thesis
  proof (cases "map_of kvs ''content''")
    case None
    with JObj show ?thesis by (simp add: isValidContent_def js_and_def)
  next
    case (Some c)
    with JObj show ?thesis
      by (cases c; cases "map_of kvs ''type''") (auto simp: isValidContent_def js_and_def)
  qed
qed (simp_all add: isValidContent_def js_and_def)

lemma isValidContent_truthy: "truthy (isValidContent v) \<Longrightarrow> truthy v"
  by (cases "truthy v") (simp_all add: isValidContent_cases)

lemma isValidContent_emptyDoc: "isValidContent emptyDoc = JBool True"
  by (simp add: isValidContent_def js_and_def emptyDoc_def)

lemma isValidContent_reorderedDoc: "isValidContent reorderedDoc = JBool True"
  by (simp add: isValidContent_def js_and_def reorderedDoc_def)

text \<open>
  C6 (amended). \<^verbatim>\<open>isValidContent(value)\<close> returns \<^verbatim>\<open>true\<close> if and only if the
  value is a non-null object whose \<^verbatim>\<open>type\<close> is \<^verbatim>\<open>"doc"\<close> and whose
  \<^verbatim>\<open>content\<close> is an array, whatever the array holds (no child is inspected); its
  result is truthy only when it is \<^verbatim>\<open>true\<close>. \<^verbatim>\<open>isValidContent({})\<close> and
  \<^verbatim>\<open>isValidContent({type:"doc"})\<close> return \<^verbatim>\<open>false\<close>, while
  \<^verbatim>\<open>isValidContent(null)\<close> returns \<^verbatim>\<open>null\<close>, the falsy operand the
  \<^verbatim>\<open>&&\<close> chain stopped at.
\<close>

theorem isValidContent_shallow:
  "(isValidContent v = JBool True \<longleftrightarrow>
      (\<exists>kvs xs. v = JObj kvs \<and> map_of kvs ''type'' = Some (JStr ''doc'')
                \<and> map_of kvs ''content'' = Some (JArr xs)))
   \<and> (truthy (isValidContent v) \<longleftrightarrow> isValidContent v = JBool True)
   \<and> isValidContent (JObj [(''type'', JStr ''doc''), (''content'', JArr children)]) = JBool True
   \<and> isValidContent (JObj []) = JBool False
   \<and> isValidContent (JObj [(''type'', JStr ''doc'')]) = JBool False
   \<and> isValidContent JNull = JNull"
proof -
  have a: "isValidContent v = JBool True \<longleftrightarrow>
      (\<exists>kvs xs. v = JObj kvs \<and> map_of kvs ''type'' = Some (JStr ''doc'')
                \<and> map_of kvs ''content'' = Some (JArr xs))"
    by (cases v) (auto simp: isValidContent_cases)
  have b: "truthy (isValidContent v) \<longleftrightarrow> isValidContent v = JBool True"
    by (cases v) (auto simp: isValidContent_cases)
  have c: "isValidContent (JObj [(''type'', JStr ''doc''), (''content'', JArr children)]) = JBool True"
    by (simp add: isValidContent_def js_and_def)
  have d: "isValidContent (JObj []) = JBool False"
    by (simp add: isValidContent_def js_and_def)
  have e: "isValidContent (JObj [(''type'', JStr ''doc'')]) = JBool False"
    by (simp add: isValidContent_def js_and_def)
  have f: "isValidContent JNull = JNull"
    by (simp add: isValidContent_def js_and_def)
  from a b c d e f show ?thesis by blast
qed

theorem isValidContent_shallow_witness:
  "isValidContent defaultContent = JBool True
   \<and> truthy (isValidContent defaultContent)
   \<and> isValidContent (JObj [(''type'', JStr ''doc''), (''content'', JArr [JNum 7])]) = JBool True"
proof -
  have "\<exists>kvs xs. defaultContent = JObj kvs \<and> map_of kvs ''type'' = Some (JStr ''doc'')
                \<and> map_of kvs ''content'' = Some (JArr xs)"
    by (simp add: defaultContent_def)
  with isValidContent_shallow [of defaultContent "[JNum 7]"] show ?thesis by simp
qed

text \<open>On \<^verbatim>\<open>null\<close> the result is not the boolean \<^verbatim>\<open>false\<close>.\<close>

theorem isValidContent_null_counterexample:
  "isValidContent JNull \<noteq> JBool False"
  by (simp add: isValidContent_def js_and_def)

section \<open>The synchronising effect\<close>

lemma syncEffect_same_text:
  assumes "truthy (isValidContent content)" and "getJSON api e = Inr current"
    and "JSON_stringify content = JSON_stringify current"
  shows "syncEffect api (Some e) content =
           \<lparr>editor_after = Some e, calls = [], console = [], escaped = None\<rparr>"
  using assms isValidContent_truthy [OF assms(1)]
  by (simp add: syncEffect_def syncTry_def)

lemma syncEffect_other_text:
  assumes "truthy (isValidContent content)" and "getJSON api e = Inr current"
    and "JSON_stringify content \<noteq> JSON_stringify current"
    and "setContent api content False e = (None, e')"
  shows "syncEffect api (Some e) content =
           \<lparr>editor_after = Some e', calls = [(content, False)], console = [], escaped = None\<rparr>"
  using assms isValidContent_truthy [OF assms(1)]
  by (simp add: syncEffect_def syncTry_def)

lemma syncEffect_invalid:
  assumes "truthy content" and "\<not> truthy (isValidContent content)"
    and "setContent api defaultContent False e = (None, e')"
  shows "syncEffect api (Some e) content =
           \<lparr>editor_after = Some e', calls = [(defaultContent, False)],
            console = [(LogWarn, ''Invalid content provided to Editor'')], escaped = None\<rparr>"
  using assms by (simp add: syncEffect_def syncTry_def)

lemma syncEffect_invalid_calls:
  assumes "truthy content" and "\<not> truthy (isValidContent content)"
  shows "set (calls (syncEffect api (Some e) content)) = {(defaultContent, False)}"
proof (cases "setContent api defaultContent False e")
  case (Pair x e')
  show ?thesis
  proof (cases x)
    case None
    with Pair assms show ?thesis by (simp add: syncEffect_invalid)
  next
    case (Some y)
    with Pair assms show ?thesis
      by (simp add: syncEffect_def syncTry_def split: prod.splits)
  qed
qed

lemma syncEffect_falsy:
  assumes "\<not> truthy content"
  shows "syncEffect api (Some e) content =
           \<lparr>editor_after = Some e, calls = [], console = [], escaped = None\<rparr>"
  using assms by (simp add: syncEffect_def)

lemma onUpdate_delivered:
  assumes "d \<in> set (delivered (onUpdate api e onChange))"
  shows "truthy (isValidContent d) \<and> getJSON api e = Inr d"
  using assms
  by (auto simp: onUpdate_def split: sum.splits if_splits option.splits)

lemma syncEffect_twice:
  assumes nt: "neverThrows api" and rw: "replacesWholeDocument api"
  shows "serialized api
           (editor_after (syncEffect api (editor_after (syncEffect api (Some e) content)) content))
       = serialized api (editor_after (syncEffect api (Some e) content))"
proof -
  from nt obtain d where d: "getJSON api e = Inr d"
    unfolding neverThrows_def by blast
  from nt have s1: "\<And>c x. setContent api c False x = (None, snd (setContent api c False x))"
    unfolding neverThrows_def by (metis prod.collapse)
  from rw have same: "\<And>c x y. getJSON api (snd (setContent api c False x))
                              = getJSON api (snd (setContent api c False y))"
    unfolding replacesWholeDocument_def by blast
  show ?thesis
  proof (cases "truthy content")
    case False
    then show ?thesis by (simp add: syncEffect_falsy)
  next
    case t: True
    show ?thesis
    proof (cases "truthy (isValidContent content)")
      case False
      let ?e1 = "snd (setContent api defaultContent False e)"
      have "editor_after (syncEffect api (Some e) content) = Some ?e1"
        by (simp add: syncEffect_invalid [OF t False s1])
      moreover have "editor_after (syncEffect api (Some ?e1) content)
                   = Some (snd (setContent api defaultContent False ?e1))"
        by (simp add: syncEffect_invalid [OF t False s1])
      ultimately show ?thesis using same by (simp add: serialized_def)
    next
      case v: True
      show ?thesis
      proof (cases "JSON_stringify content = JSON_stringify d")
        case True
        from syncEffect_same_text [OF v d True] show ?thesis by simp
      next
        case False
        let ?e1 = "snd (setContent api content False e)"
        have first: "editor_after (syncEffect api (Some e) content) = Some ?e1"
          by (simp add: syncEffect_other_text [OF v d False s1])
        from nt obtain d1 where d1: "getJSON api ?e1 = Inr d1"
          unfolding neverThrows_def by blast
        show ?thesis
        proof (cases "JSON_stringify content = JSON_stringify d1")
          case True
          from syncEffect_same_text [OF v d1 True] first show ?thesis by simp
        next
          case False
          from syncEffect_other_text [OF v d1 False s1] first same show ?thesis
            by (simp add: serialized_def)
        qed
      qed
    qed
  qed
qed

lemma plainEditor_neverThrows: "neverThrows plainEditor"
  by (simp add: neverThrows_def plainEditor_def)

lemma plainEditor_replacesWholeDocument: "replacesWholeDocument plainEditor"
  by (simp add: replacesWholeDocument_def plainEditor_def)

text \<open>
  C1 (amended). For every externally supplied value that passes \<^verbatim>\<open>isValidContent\<close>
  and whose \<^verbatim>\<open>JSON.stringify\<close> text is the text of the editor's current document
  (the same tree with its keys in the same order), the effect makes no
  \<^verbatim>\<open>setContent\<close> call and leaves the editor as it is. A document that
  \<^verbatim>\<open>onUpdate\<close> handed to \<^verbatim>\<open>onChange\<close>, fed back as the external value with no
  edit in between, therefore triggers no replacement. And when the library never throws
  and \<^verbatim>\<open>setContent\<close> replaces the whole document, running the effect a second time
  with the same value leaves the serialized document as the first run left it.
\<close>

theorem sync_skips_identical_text:
  "(truthy (isValidContent content) \<and> getJSON api e = Inr current
      \<and> JSON_stringify content = JSON_stringify current
    \<longrightarrow> calls (syncEffect api (Some e) content) = []
      \<and> editor_after (syncEffect api (Some e) content) = Some e
      \<and> escaped (syncEffect api (Some e) content) = None)
   \<and> (emitted \<in> set (delivered (onUpdate api e onChange))
    \<longrightarrow> calls (syncEffect api (Some e) emitted) = []
      \<and> editor_after (syncEffect api (Some e) emitted) = Some e)
   \<and> (neverThrows api \<and> replacesWholeDocument api
    \<longrightarrow> serialized api
          (editor_after (syncEffect api (editor_after (syncEffect api (Some e) content)) content))
        = serialized api (editor_after (syncEffect api (Some e) content)))"
proof (intro conjI impI)
  assume h: "truthy (isValidContent content) \<and> getJSON api e = Inr current
      \<and> JSON_stringify content = JSON_stringify current"
  then have run: "syncEffect api (Some e) content =
           \<lparr>editor_after = Some e, calls = [], console = [], escaped = None\<rparr>"
    by (intro syncEffect_same_text) simp_all
  show "calls (syncEffect api (Some e) content) = []" by (simp add: run)
  show "editor_after (syncEffect api (Some e) content) = Some e" by (simp add: run)
  show "escaped (syncEffect api (Some e) content) = None" by (simp add: run)
next
  assume "emitted \<in> set (delivered (onUpdate api e onChange))"
  then have v: "truthy (isValidContent emitted)" and g: "getJSON api e = Inr emitted"
    by (simp_all add: onUpdate_delivered)
  have run: "syncEffect api (Some e) emitted =
           \<lparr>editor_after = Some e, calls = [], console = [], escaped = None\<rparr>"
    by (rule syncEffect_same_text [OF v g refl])
  show "calls (syncEffect api (Some e) emitted) = []" by (simp add: run)
  show "editor_after (syncEffect api (Some e) emitted) = Some e" by (simp add: run)
next
  assume "neverThrows api \<and> replacesWholeDocument api"
  then show "serialized api
          (editor_after (syncEffect api (editor_after (syncEffect api (Some e) content)) content))
        = serialized api (editor_after (syncEffect api (Some e) content))"
    by (simp add: syncEffect_twice)
qed

theorem sync_skips_identical_text_witness:
  "truthy (isValidContent emptyDoc)
   \<and> getJSON plainEditor emptyDoc = Inr emptyDoc
   \<and> delivered (onUpdate plainEditor emptyDoc accepting) = [emptyDoc]
   \<and> calls (syncEffect plainEditor (Some emptyDoc) emptyDoc) = []
   \<and> neverThrows plainEditor \<and> replacesWholeDocument plainEditor
   \<and> serialized plainEditor
        (editor_after (syncEffect plainEditor
           (editor_after (syncEffect plainEditor (Some emptyDoc) reorderedDoc)) reorderedDoc))
     = serialized plainEditor (editor_after (syncEffect plainEditor (Some emptyDoc) reorderedDoc))"
proof -
  have v: "truthy (isValidContent emptyDoc)"
    by (simp add: isValidContent_emptyDoc)
  have g: "getJSON plainEditor emptyDoc = Inr emptyDoc"
    by (simp add: plainEditor_def)
  have u: "delivered (onUpdate plainEditor emptyDoc accepting) = [emptyDoc]"
    by (simp add: onUpdate_def g accepting_def isValidContent_emptyDoc)
  note t = sync_skips_identical_text
    [where api = plainEditor and e = emptyDoc and content = reorderedDoc
       and current = emptyDoc and emitted = emptyDoc and onChange = accepting]
  from t u have c: "calls (syncEffect plainEditor (Some emptyDoc) emptyDoc) = []"
    by simp
  from t plainEditor_neverThrows plainEditor_replacesWholeDocument
  have i: "serialized plainEditor
        (editor_after (syncEffect plainEditor
           (editor_after (syncEffect plainEditor (Some emptyDoc) reorderedDoc)) reorderedDoc))
     = serialized plainEditor (editor_after (syncEffect plainEditor (Some emptyDoc) reorderedDoc))"
    by blast
  from v g u c i plainEditor_neverThrows plainEditor_replacesWholeDocument
  show ?thesis by blast
qed

text \<open>Two documents that are deeply equal but written with their keys in a different
  order: the effect replaces the editor's content.\<close>

theorem sync_deep_equal_counterexample:
  "truthy (isValidContent reorderedDoc)
   \<and> getJSON plainEditor emptyDoc = Inr emptyDoc
   \<and> deepStructuralEqual reorderedDoc emptyDoc
   \<and> calls (syncEffect plainEditor (Some emptyDoc) reorderedDoc) = [(reorderedDoc, False)]"
proof -
  have v: "truthy (isValidContent reorderedDoc)"
    by (simp add: isValidContent_reorderedDoc)
  have g: "getJSON plainEditor emptyDoc = Inr emptyDoc"
    by (simp add: plainEditor_def)
  have q: "deepStructuralEqual reorderedDoc emptyDoc"
    by (simp add: deepStructuralEqual_def reorderedDoc_def emptyDoc_def)
  have n: "JSON_stringify reorderedDoc \<noteq> JSON_stringify emptyDoc"
    by (simp add: reorderedDoc_def emptyDoc_def memberText_def elementText_def quote_def
        escapeChar_def)
  have s: "setContent plainEditor reorderedDoc False emptyDoc = (None, reorderedDoc)"
    by (simp add: plainEditor_def)
  from syncEffect_other_text [OF v g n s] v g q show ?thesis by simp
qed

text \<open>
  C2 (amended). For every externally supplied truthy value that fails
  \<^verbatim>\<open>isValidContent\<close>, such as \<^verbatim>\<open>{}\<close> and \<^verbatim>\<open>{type:"doc"}\<close>, every
  \<^verbatim>\<open>setContent\<close> call the effect makes is \<^verbatim>\<open>setContent(defaultContent, false)\<close>;
  when that call returns, it is the only one, the editor holds what the call produced,
  a warning is logged and nothing is raised. For a falsy value such as \<^verbatim>\<open>null\<close>
  the effect does nothing: no call is made and the editor keeps its document.
\<close>

theorem sync_invalid_falls_back:
  "(truthy content \<and> \<not> truthy (isValidContent content)
      \<and> setContent api defaultContent False e = (None, e')
    \<longrightarrow> syncEffect api (Some e) content =
          \<lparr>editor_after = Some e', calls = [(defaultContent, False)],
           console = [(LogWarn, ''Invalid content provided to Editor'')], escaped = None\<rparr>)
   \<and> (truthy content \<and> \<not> truthy (isValidContent content)
    \<longrightarrow> set (calls (syncEffect api (Some e) content)) = {(defaultContent, False)})
   \<and> (\<not> truthy content
    \<longrightarrow> syncEffect api (Some e) content =
          \<lparr>editor_after = Some e, calls = [], console = [], escaped = None\<rparr>)"
  by (simp add: syncEffect_invalid syncEffect_invalid_calls syncEffect_falsy)

theorem sync_invalid_falls_back_witness:
  "truthy (JObj []) \<and> \<not> truthy (isValidContent (JObj []))
   \<and> calls (syncEffect plainEditor (Some emptyDoc) (JObj [])) = [(defaultContent, False)]
   \<and> editor_after (syncEffect plainEditor (Some emptyDoc) (JObj [])) = Some defaultContent
   \<and> escaped (syncEffect plainEditor (Some emptyDoc) (JObj [])) = None
   \<and> calls (syncEffect plainEditor (Some emptyDoc) (JObj [(''type'', JStr ''doc'')]))
       = [(defaultContent, False)]
   \<and> calls (syncEffect plainEditor (Some emptyDoc) JNull) = []"
proof -
  have a: "truthy (JObj []) \<and> \<not> truthy (isValidContent (JObj []))"
    by (simp add: isValidContent_def js_and_def)
  have b: "truthy (JObj [(''type'', JStr ''doc'')])
         \<and> \<not> truthy (isValidContent (JObj [(''type'', JStr ''doc'')]))"
    by (simp add: isValidContent_def js_and_def)
  have s: "setContent plainEditor defaultContent False emptyDoc = (None, defaultContent)"
    by (simp add: plainEditor_def)
  have n: "\<not> truthy JNull" by simp
  from sync_invalid_falls_back
    [where api = plainEditor and e = emptyDoc and e' = defaultContent and content = "JObj []"]
    a s
  have r1: "syncEffect plainEditor (Some emptyDoc) (JObj []) =
          \<lparr>editor_after = Some defaultContent, calls = [(defaultContent, False)],
           console = [(LogWarn, ''Invalid content provided to Editor'')], escaped = None\<rparr>"
    by blast
  from sync_invalid_falls_back
    [where api = plainEditor and e = emptyDoc and e' = defaultContent
       and content = "JObj [(''type'', JStr ''doc'')]"]
    b s
  have r2: "syncEffect plainEditor (Some emptyDoc) (JObj [(''type'', JStr ''doc'')]) =
          \<lparr>editor_after = Some defaultContent, calls = [(defaultContent, False)],
           console = [(LogWarn, ''Invalid content provided to Editor'')], escaped = None\<rparr>"
    by blast
  from sync_invalid_falls_back
    [where api = plainEditor and e = emptyDoc and e' = defaultContent and content = JNull] n
  have r3: "syncEffect plainEditor (Some emptyDoc) JNull =
          \<lparr>editor_after = Some emptyDoc, calls = [], console = [], escaped = None\<rparr>"
    by blast
  from a show ?thesis by (simp add: r1 r2 r3)
qed

text \<open>\<^verbatim>\<open>null\<close> fails \<^verbatim>\<open>isValidContent\<close>, and the effect leaves the editor's
  document, which is not the default one, in place without any call.\<close>

theorem sync_null_counterexample:
  "\<not> truthy (isValidContent JNull)
   \<and> calls (syncEffect plainEditor (Some emptyDoc) JNull) = []
   \<and> serialized plainEditor (editor_after (syncEffect plainEditor (Some emptyDoc) JNull))
       = Some (Inr emptyDoc)
   \<and> emptyDoc \<noteq> defaultContent"
  by (simp add: isValidContent_def js_and_def syncEffect_def serialized_def plainEditor_def
      emptyDoc_def defaultContent_def)

text \<open>
  C9. Every document that \<^verbatim>\<open>onUpdate\<close> hands to \<^verbatim>\<open>onChange\<close> is the editor's
  freshly serialized document and passes \<^verbatim>\<open>isValidContent\<close>; nothing is handed over
  when the serialized document fails the check or when serialisation raises, and no
  exception leaves the handler.
\<close>

theorem onUpdate_delivers_valid_only:
  "(\<forall>d \<in> set (delivered (onUpdate api e onChange)).
       truthy (isValidContent d) \<and> getJSON api e = Inr d)
   \<and> update_escaped (onUpdate api e onChange) = None
   \<and> (getJSON api e = Inl x \<longrightarrow> delivered (onUpdate api e onChange) = [])
   \<and> (getJSON api e = Inr doc \<and> \<not> truthy (isValidContent doc)
        \<longrightarrow> delivered (onUpdate api e onChange) = [])"
proof (intro conjI ballI impI)
  fix d assume "d \<in> set (delivered (onUpdate api e onChange))"
  then show "truthy (isValidContent d)" and "getJSON api e = Inr d"
    by (simp_all add: onUpdate_delivered)
next
  show "update_escaped (onUpdate api e onChange) = None"
    by (simp add: onUpdate_def split: sum.splits option.splits)
next
  assume "getJSON api e = Inl x"
  then show "delivered (onUpdate api e onChange) = []"
    by (simp add: onUpdate_def)
next
  assume "getJSON api e = Inr doc \<and> \<not> truthy (isValidContent doc)"
  then show "delivered (onUpdate api e onChange) = []"
    by (simp add: onUpdate_def)
qed

theorem onUpdate_delivers_valid_only_witness:
  "delivered (onUpdate plainEditor emptyDoc accepting) = [emptyDoc]
   \<and> truthy (isValidContent emptyDoc)
   \<and> getJSON brokenEditor emptyDoc = Inl (JsError ''Cannot serialize'')
   \<and> delivered (onUpdate brokenEditor emptyDoc accepting) = []
   \<and> update_escaped (onUpdate brokenEditor emptyDoc accepting) = None
   \<and> getJSON plainEditor (JObj []) = Inr (JObj [])
   \<and> delivered (onUpdate plainEditor (JObj []) accepting) = []"
proof -
  have u: "delivered (onUpdate plainEditor emptyDoc accepting) = [emptyDoc]"
    by (simp add: onUpdate_def plainEditor_def accepting_def isValidContent_emptyDoc)
  have b: "getJSON brokenEditor emptyDoc = Inl (JsError ''Cannot serialize'')"
    by (simp add: brokenEditor_def)
  have g: "getJSON plainEditor (JObj []) = Inr (JObj [])"
    by (simp add: plainEditor_def)
  have n: "\<not> truthy (isValidContent (JObj []))"
    by (simp add: isValidContent_def js_and_def)
  from onUpdate_delivers_valid_only
    [where api = plainEditor and e = emptyDoc and onChange = accepting] u
  have v: "truthy (isValidContent emptyDoc)" by simp
  from onUpdate_delivers_valid_only
    [where api = brokenEditor and e = emptyDoc and onChange = accepting
       and x = "JsError ''Cannot serialize''"] b
  have w: "delivered (onUpdate brokenEditor emptyDoc accepting) = []
         \<and> update_escaped (onUpdate brokenEditor emptyDoc accepting) = None"
    by blast
  from onUpdate_delivers_valid_only
    [where api = plainEditor and e = "JObj []" and onChange = accepting and doc = "JObj []"]
    g n
  have z: "delivered (onUpdate plainEditor (JObj []) accepting) = []" by blast
  from u v b w g z show ?thesis by blast
qed

section \<open>Node identifiers\<close>

text \<open>What the declaration's \<^verbatim>\<open>renderHTML\<close> computes when it is called: with an
  \<^verbatim>\<open>id\<close> it shows that \<^verbatim>\<open>id\<close> and draws nothing; without one it shows the
  generator's next identifier, and the attributes it was given are not part of what it
  returns.\<close>

lemma render_with_id:
  assumes "node_id attributes = Some s" and "s \<noteq> []"
  shows "addNodeId_renderHTML source attributes drawn =
           ([(''data-node-id'', s), (''data-node-tooltip'', ''Node ID: '' @ s)], drawn)"
  using assms by (simp add: addNodeId_renderHTML_def)

lemma render_without_id:
  assumes "node_id attributes = None \<or> node_id attributes = Some []"
  shows "addNodeId_renderHTML source attributes drawn =
           ([(''data-node-id'', source drawn),
             (''data-node-tooltip'', ''Node ID: '' @ source drawn)], Suc drawn)"
  using assms by (auto simp: addNodeId_renderHTML_def uuidv4_def)

section \<open>The upload workflow\<close>

lemma onDrop_wrong_type:
  assumes "file_type f \<noteq> ''application/pdf''"
  shows "onDrop env s (f # rest) =
           \<lparr>final = \<lparr>data = JNull, error = ''Please upload a PDF file'', isLoading = False\<rparr>,
            requests = [], notified = [], snapshots = []\<rparr>"
  using assms by (simp add: onDrop_def tryConvert_def)

text \<open>A failure status with a body that parses and is not \<^verbatim>\<open>null\<close>: the message
  is \<^verbatim>\<open>String(result.error || 'Failed to convert PDF')\<close>.\<close>

lemma onDrop_failure_status:
  assumes "file_type f = ''application/pdf''"
    and "fetch env (convertRequest f) = Resolved r" and "\<not> ok r" and "json r = Inr body"
    and "readProp body ''error'' = Inr e"
  shows "onDrop env s (f # rest) =
           \<lparr>final = \<lparr>data = JNull,
                     error = toString (js_or e (JStr ''Failed to convert PDF'')),
                     isLoading = False\<rparr>,
            requests = [convertRequest f], notified = [],
            snapshots = [\<lparr>data = JNull, error = [], isLoading = True\<rparr>,
                         \<lparr>data = JNull, error = [], isLoading = True\<rparr>]\<rparr>"
  using assms by (simp add: onDrop_def tryConvert_def)

lemma onDrop_no_file:
  "onDrop env s [] =
     \<lparr>final = \<lparr>data = JNull, error = cannotRead ''undefined'' ''type'', isLoading = False\<rparr>,
      requests = [], notified = [], snapshots = []\<rparr>"
  by (simp add: onDrop_def tryConvert_def)

text \<open>
  C4. A dropped file that the dropzone has filtered out for its media type reaches
  \<^verbatim>\<open>onDrop\<close> as the empty list \<^verbatim>\<open>acceptedFiles\<close>. The handler then ends in the
  error state without sending a request, but the message it stores is that of the
  TypeError raised by \<^verbatim>\<open>file.type\<close>, not \<^verbatim>\<open>Please upload a PDF file\<close>.
\<close>

theorem onDrop_filtered_file_message:
  "getError (final (onDrop env s [])) = Some (cannotRead ''undefined'' ''type'')
   \<and> getError (final (onDrop env s [])) \<noteq> Some ''Please upload a PDF file''
   \<and> requests (onDrop env s []) = []
   \<and> snapshots (onDrop env s []) = []"
  by (simp add: onDrop_no_file getError_def cannotRead_def)

text \<open>
  C5 (amended). Rejecting a dropped file for its media type clears the workflow's stored
  result, whether the dropzone filtered the file out (the handler receives the empty
  list) or the handler's own check refused it: whatever result was stored before, the
  current-result accessor returns \<^verbatim>\<open>null\<close> afterwards. The content-change observer
  is not called, so the document the host keeps is not touched.
\<close>

theorem rejection_clears_result:
  "getHtml (final (onDrop env s [])) = JNull
   \<and> notified (onDrop env s []) = []
   \<and> (file_type f \<noteq> ''application/pdf''
        \<longrightarrow> getHtml (final (onDrop env s (f # rest))) = JNull
          \<and> notified (onDrop env s (f # rest)) = [])"
  by (simp add: onDrop_no_file onDrop_wrong_type getHtml_def)

theorem rejection_clears_result_witness:
  "getHtml afterSuccess = emptyDoc
   \<and> getHtml (final (onDrop unreachable afterSuccess [])) = JNull
   \<and> file_type untypedPdf \<noteq> ''application/pdf''
   \<and> getHtml (final (onDrop unreachable afterSuccess [untypedPdf])) = JNull
   \<and> notified (onDrop unreachable afterSuccess [untypedPdf]) = []"
proof -
  have t: "file_type untypedPdf \<noteq> ''application/pdf''"
    by (simp add: untypedPdf_def)
  have a: "getHtml afterSuccess = emptyDoc"
    by (simp add: getHtml_def afterSuccess_def)
  from rejection_clears_result
      [where env = unreachable and s = afterSuccess and f = untypedPdf and rest = "[]"] t a
  show ?thesis by simp
qed

text \<open>The stored result was the empty document; after a drop that the dropzone filtered
  out, and after a drop that the handler refused, it is gone.\<close>

theorem rejection_keeps_result_counterexample:
  "getHtml afterSuccess = emptyDoc
   \<and> getHtml (final (onDrop unreachable afterSuccess [])) \<noteq> emptyDoc
   \<and> file_type untypedPdf \<noteq> ''application/pdf''
   \<and> getHtml (final (onDrop unreachable afterSuccess [untypedPdf])) \<noteq> emptyDoc"
  by (simp add: untypedPdf_def getHtml_def afterSuccess_def emptyDoc_def onDrop_def
      tryConvert_def)

text \<open>
  C8. Three responses with a failure status, each to a dropped PDF. A body that is not
  JSON leaves the parser's message in the error state, and a \<^verbatim>\<open>null\<close> body leaves
  the message of the TypeError raised by \<^verbatim>\<open>result.error\<close>: neither is a message
  the server supplied, nor \<^verbatim>\<open>Failed to convert PDF\<close>. A body whose \<^verbatim>\<open>error\<close>
  field is an empty array leaves the empty message, which is no error state at all.
\<close>

theorem failure_status_odd_bodies:
  "file_type pdfFile = ''application/pdf''
   \<and> getError (final (onDrop (answering False (Inl (JsError ''Unexpected end of JSON input'')))
        afterSuccess [pdfFile])) = Some ''Unexpected end of JSON input''
   \<and> getError (final (onDrop (answering False (Inr JNull)) afterSuccess [pdfFile]))
       = Some (cannotRead ''null'' ''error'')
   \<and> cannotRead ''null'' ''error'' \<noteq> ''Failed to convert PDF''
   \<and> getError (final (onDrop (answering False (Inr (JObj [(''error'', JArr [])])))
        afterSuccess [pdfFile])) = None"
  by (simp add: pdfFile_def answering_def onDrop_def tryConvert_def getError_def js_or_def
      cannotRead_def)

text \<open>
  C10. Whatever file list the drop handler receives and whatever the service does, when
  the handler has run to its end the is-converting accessor returns \<^verbatim>\<open>false\<close>.
\<close>

theorem onDrop_resets_loading:
  "isConverting (final (onDrop env s acceptedFiles)) = False"
  by (simp add: onDrop_def isConverting_def split: prod.splits)

theorem onDrop_resets_loading_witness:
  "isConverting (final (onDrop unreachable afterSuccess [pdfFile])) = False
   \<and> isConverting (final (onDrop (answering True (Inr emptyDoc)) afterSuccess [pdfFile])) = False
   \<and> isConverting (final (onDrop unreachable afterSuccess [textFile])) = False
   \<and> map isConverting (snapshots (onDrop unreachable afterSuccess [pdfFile])) = [True]"
proof -
  have "map isConverting (snapshots (onDrop unreachable afterSuccess [pdfFile])) = [True]"
    by (simp add: onDrop_def tryConvert_def pdfFile_def unreachable_def isConverting_def)
  with onDrop_resets_loading [of unreachable afterSuccess "[pdfFile]"]
    onDrop_resets_loading [of "answering True (Inr emptyDoc)" afterSuccess "[pdfFile]"]
    onDrop_resets_loading [of unreachable afterSuccess "[textFile]"]
  show ?thesis by simp
qed

end
